theory Spec2Isabelle
  imports Main "HOL-Library.Multiset"
begin

section \<open>JavaScript values that flow through the handlers\<close>

text \<open>
  The request bodies carry optional text fields. A property read on a JavaScript object
  yields \<open>undefined\<close> when the key is absent, \<open>null\<close>, or a string. Numbers, booleans and
  nested objects in a body are not modelled: the profile handler declares its updates as
  \<^verbatim>\<open>Record<string, string>\<close> and every column it touches is a text column.
\<close>

datatype jsval = Undefined | Null | Str string

text \<open>Truthiness, as used by \<^verbatim>\<open>a && b\<close> and \<^verbatim>\<open>a || b\<close>: the empty string is falsy.\<close>

fun truthy :: "jsval \<Rightarrow> bool" where
  "truthy Undefined = False"
| "truthy Null = False"
| "truthy (Str s) = (s \<noteq> [])"

text \<open>A nullable text column read into JavaScript, and a JavaScript value written to one
  (drizzle leaves out \<open>undefined\<close>, so the column takes its default, which is NULL).\<close>

fun col :: "string option \<Rightarrow> jsval" where
  "col None = Null"
| "col (Some s) = Str s"

fun toCol :: "jsval \<Rightarrow> string option" where
  "toCol (Str s) = Some s"
| "toCol Null = None"
| "toCol Undefined = None"

text \<open>An object literal is a list of properties in insertion order; reading a key that is
  not there gives \<open>undefined\<close>, assigning keeps the position of a key that is already there.\<close>

type_synonym jsobj = "(string \<times> jsval) list"

definition getProp :: "jsobj \<Rightarrow> string \<Rightarrow> jsval" where
  "getProp obj k = (case map_of obj k of None \<Rightarrow> Undefined | Some v \<Rightarrow> v)"

fun assign :: "string \<Rightarrow> jsval \<Rightarrow> jsobj \<Rightarrow> jsobj" where
  "assign k v [] = [(k, v)]"
| "assign k v (p # ps) = (if fst p = k then (k, v) # ps else p # assign k v ps)"

section \<open>The schema (shared/schema.ts)\<close>

type_synonym timestamp = int

record User =
  u_id :: int
  email :: string
  password :: string
  firstName :: "string option"
  lastName :: "string option"
  projectName :: "string option"
  clientName :: "string option"
  role :: "string option"
  location :: "string option"

record Skill =
  s_id :: int
  s_userId :: int
  s_name :: string
  s_level :: string
  s_updatedAt :: timestamp
  s_certificationUrl :: "string option"

record SkillHistory =
  sh_id :: int
  sh_skillId :: int
  sh_userId :: int
  sh_name :: string
  sh_level :: string
  sh_updatedAt :: timestamp
  sh_certificationUrl :: "string option"

record ProfileHistory =
  ph_id :: int
  ph_userId :: int
  ph_field :: string
  ph_previousValue :: "string option"
  ph_newValue :: string
  ph_updatedAt :: timestamp

text \<open>\<^verbatim>\<open>InsertSkill\<close>: what \<^verbatim>\<open>insertSkillSchema.parse\<close> returns. The certification URL is
  optional and nullable, so it is a string, \<open>null\<close> or \<open>undefined\<close>.\<close>

record InsertSkill =
  is_userId :: int
  is_name :: string
  is_level :: string
  is_certificationUrl :: jsval

text \<open>\<^verbatim>\<open>Partial<Skill>\<close> as \<^verbatim>\<open>updateSkill\<close> receives it; every key may be missing. The keys
  \<^verbatim>\<open>id\<close> and \<^verbatim>\<open>updatedAt\<close> are left out: no caller passes \<^verbatim>\<open>id\<close>, and \<^verbatim>\<open>updatedAt\<close> is
  overwritten by \<^verbatim>\<open>updateSkill\<close> itself.\<close>

record PartialSkill =
  ps_userId :: "int option"
  ps_name :: "string option"
  ps_level :: "string option"
  ps_certificationUrl :: jsval

text \<open>The objects handed to \<^verbatim>\<open>createSkillHistory\<close> and \<^verbatim>\<open>createProfileHistory\<close>. The storage
  layer adds \<^verbatim>\<open>updatedAt\<close> itself, the route handlers leave it to the column default
  \<^verbatim>\<open>defaultNow()\<close>.\<close>

record InsertSkillHistory =
  ish_skillId :: int
  ish_userId :: int
  ish_name :: string
  ish_level :: string
  ish_certificationUrl :: jsval
  ish_updatedAt :: "timestamp option"

record InsertProfileHistory =
  iph_userId :: int
  iph_field :: string
  iph_previousValue :: jsval
  iph_newValue :: jsval
  iph_updatedAt :: "timestamp option"

section \<open>The store\<close>

text \<open>
  The four tables with their serial counters, the clock and the log of writes. The clock is
  the sequence of readings the environment will deliver: the \<open>n\<close>-th reading of the clock
  (by \<^verbatim>\<open>new Date()\<close> or by the database's \<^verbatim>\<open>now()\<close>) returns \<open>clock n\<close>. The log records
  every insert and update in the order in which the awaited calls complete.
\<close>

datatype dbwrite =
    InsSkill int
  | UpdSkill int
  | InsSkillHistory int
  | InsProfileHistory int
  | UpdUser int

record db =
  users :: "User list"
  skills :: "Skill list"
  skillHistory :: "SkillHistory list"
  profileHistory :: "ProfileHistory list"
  nextSkillId :: int
  nextSkillHistoryId :: int
  nextProfileHistoryId :: int
  clock :: "nat \<Rightarrow> timestamp"
  reads :: nat
  writes :: "dbwrite list"

datatype error =
    NotFoundError
  | NoValuesToSet
  | InvalidColumnValue
  | NotNullViolation
  | UniqueViolation

definition newDate :: "db \<Rightarrow> timestamp \<times> db" where
  "newDate st = (clock st (reads st), st\<lparr>reads := Suc (reads st)\<rparr>)"

text \<open>A timestamp that the caller supplied, or else the column default.\<close>

definition stamp :: "timestamp option \<Rightarrow> db \<Rightarrow> timestamp \<times> db" where
  "stamp t st = (case t of Some t' \<Rightarrow> (t', st) | None \<Rightarrow> newDate st)"

section \<open>DatabaseStorage (server/storage.ts)\<close>

subsection \<open>Skills and their history\<close>

definition getSkillById :: "int \<Rightarrow> db \<Rightarrow> Skill option" where
  "getSkillById i st = find (\<lambda>s. s_id s = i) (skills st)"

definition createSkillHistory :: "InsertSkillHistory \<Rightarrow> db \<Rightarrow> SkillHistory \<times> db" where
  "createSkillHistory h st =
     (let (t, st1) = stamp (ish_updatedAt h) st;
          row = \<lparr>sh_id = nextSkillHistoryId st1, sh_skillId = ish_skillId h,
                 sh_userId = ish_userId h, sh_name = ish_name h, sh_level = ish_level h,
                 sh_updatedAt = t, sh_certificationUrl = toCol (ish_certificationUrl h)\<rparr>
      in (row, st1\<lparr>skillHistory := skillHistory st1 @ [row],
                    nextSkillHistoryId := nextSkillHistoryId st1 + 1,
                    writes := writes st1 @ [InsSkillHistory (sh_id row)]\<rparr>))"

definition createSkill :: "InsertSkill \<Rightarrow> db \<Rightarrow> Skill \<times> db" where
  "createSkill insertSkill st =
     (let (now, st1) = newDate st;
          skill = \<lparr>s_id = nextSkillId st1, s_userId = is_userId insertSkill,
                   s_name = is_name insertSkill, s_level = is_level insertSkill,
                   s_updatedAt = now,
                   s_certificationUrl = toCol (is_certificationUrl insertSkill)\<rparr>;
          st2 = st1\<lparr>skills := skills st1 @ [skill], nextSkillId := nextSkillId st1 + 1,
                    writes := writes st1 @ [InsSkill (s_id skill)]\<rparr>;
          (h, st3) = createSkillHistory
                       \<lparr>ish_skillId = s_id skill, ish_userId = s_userId skill,
                        ish_name = s_name skill, ish_level = s_level skill,
                        ish_certificationUrl = col (s_certificationUrl skill),
                        ish_updatedAt = Some now\<rparr> st2
      in (skill, st3))"

text \<open>\<^verbatim>\<open>db.update(skills).set({...updates, updatedAt: now})\<close> on one row: keys that are
  \<open>undefined\<close> leave their column alone.\<close>

definition setSkill :: "PartialSkill \<Rightarrow> timestamp \<Rightarrow> Skill \<Rightarrow> Skill" where
  "setSkill updates now s =
     s\<lparr>s_userId := (case ps_userId updates of None \<Rightarrow> s_userId s | Some u \<Rightarrow> u),
       s_name := (case ps_name updates of None \<Rightarrow> s_name s | Some n \<Rightarrow> n),
       s_level := (case ps_level updates of None \<Rightarrow> s_level s | Some l \<Rightarrow> l),
       s_certificationUrl := (case ps_certificationUrl updates of
                                Undefined \<Rightarrow> s_certificationUrl s | v \<Rightarrow> toCol v),
       s_updatedAt := now\<rparr>"

text \<open>\<^verbatim>\<open>updates.level || currentSkill.level\<close>: an empty level falls back too.\<close>

definition levelOr :: "string option \<Rightarrow> string \<Rightarrow> string" where
  "levelOr l cur = (case l of None \<Rightarrow> cur | Some x \<Rightarrow> if x = [] then cur else x)"

definition updateSkill :: "int \<Rightarrow> PartialSkill \<Rightarrow> db \<Rightarrow> (error + Skill option) \<times> db" where
  "updateSkill i updates st =
     (let (now, st1) = newDate st in
      case getSkillById i st1 of
        None \<Rightarrow> (Inl NotFoundError, st1)
      | Some currentSkill \<Rightarrow>
          let st2 =
            (if (ps_level updates \<noteq> None \<and> ps_level updates \<noteq> Some (s_level currentSkill)) \<or>
                (ps_certificationUrl updates \<noteq> Undefined \<and>
                 ps_certificationUrl updates \<noteq> col (s_certificationUrl currentSkill))
             then snd (createSkillHistory
                    \<lparr>ish_skillId = i, ish_userId = s_userId currentSkill,
                     ish_name = s_name currentSkill,
                     ish_level = levelOr (ps_level updates) (s_level currentSkill),
                     ish_certificationUrl =
                       (if ps_certificationUrl updates \<noteq> Undefined
                        then ps_certificationUrl updates
                        else col (s_certificationUrl currentSkill)),
                     ish_updatedAt = Some now\<rparr> st1)
             else st1);
            st3 = st2\<lparr>skills := map (\<lambda>s. if s_id s = i then setSkill updates now s else s)
                                     (skills st2),
                      writes := writes st2 @ [UpdSkill i]\<rparr>
          in (Inr (find (\<lambda>s. s_id s = i) (skills st3)), st3))"

subsection \<open>The history listings\<close>





subsection \<open>Users and their profile history\<close>

definition getUser :: "int \<Rightarrow> db \<Rightarrow> User option" where
  "getUser i st = find (\<lambda>u. u_id u = i) (users st)"

text \<open>\<^verbatim>\<open>currentUser[field]\<close> for the text columns. The handlers read it only at the names of
  their two fixed field lists; the numeric \<^verbatim>\<open>id\<close> is never read this way.\<close>

definition userField :: "User \<Rightarrow> string \<Rightarrow> jsval" where
  "userField u field =
     (if field = ''firstName'' then col (firstName u)
      else if field = ''lastName'' then col (lastName u)
      else if field = ''projectName'' then col (projectName u)
      else if field = ''clientName'' then col (clientName u)
      else if field = ''role'' then col (role u)
      else if field = ''location'' then col (location u)
      else if field = ''email'' then Str (email u)
      else if field = ''password'' then Str (password u)
      else Undefined)"

text \<open>The column \<^verbatim>\<open>new_value\<close> is \<^verbatim>\<open>notNull\<close>: an insert without a string there is rejected
  by the database and the call throws. The rejected insert has already drawn its id from
  the serial, which is not given back.\<close>

definition createProfileHistory ::
  "InsertProfileHistory \<Rightarrow> db \<Rightarrow> (error + ProfileHistory) \<times> db" where
  "createProfileHistory h st =
     (case iph_newValue h of
        Str nv \<Rightarrow>
          let (t, st1) = stamp (iph_updatedAt h) st;
              row = \<lparr>ph_id = nextProfileHistoryId st1, ph_userId = iph_userId h,
                     ph_field = iph_field h, ph_previousValue = toCol (iph_previousValue h),
                     ph_newValue = nv, ph_updatedAt = t\<rparr>
          in (Inr row, st1\<lparr>profileHistory := profileHistory st1 @ [row],
                            nextProfileHistoryId := nextProfileHistoryId st1 + 1,
                            writes := writes st1 @ [InsProfileHistory (ph_id row)]\<rparr>)
      | Null \<Rightarrow>
          (Inl NotNullViolation, st\<lparr>nextProfileHistoryId := nextProfileHistoryId st + 1\<rparr>)
      | Undefined \<Rightarrow>
          (Inl NotNullViolation, st\<lparr>nextProfileHistoryId := nextProfileHistoryId st + 1\<rparr>))"

definition fieldsToTrack :: "string list" where
  "fieldsToTrack = [''role'', ''projectName'', ''clientName'', ''location'']"

text \<open>The loop of \<^verbatim>\<open>updateUser\<close> over \<^verbatim>\<open>fieldsToTrack\<close>. A call that throws ends the loop;
  the rows written before it stay.\<close>

fun trackFields ::
  "string list \<Rightarrow> int \<Rightarrow> jsobj \<Rightarrow> User \<Rightarrow> db \<Rightarrow> (error + unit) \<times> db" where
  "trackFields [] i updates currentUser st = (Inr (), st)"
| "trackFields (field # rest) i updates currentUser st =
     (if getProp updates field \<noteq> Undefined \<and>
         getProp updates field \<noteq> userField currentUser field
      then
        (case createProfileHistory
                \<lparr>iph_userId = i, iph_field = field,
                 iph_previousValue = userField currentUser field,
                 iph_newValue = getProp updates field,
                 iph_updatedAt = Some (fst (newDate st))\<rparr> (snd (newDate st)) of
           (Inl e, st2) \<Rightarrow> (Inl e, st2)
         | (Inr h, st2) \<Rightarrow> trackFields rest i updates currentUser st2)
      else trackFields rest i updates currentUser st)"

text \<open>The database reads an integer out of a text parameter: blanks around it, an optional
  sign and decimal digits, within the range of \<^verbatim>\<open>int4\<close>. Other spellings that some server
  versions accept (hexadecimal, underscores) are not modelled and count as invalid.\<close>

definition isSpace :: "char \<Rightarrow> bool" where
  "isSpace c = ((of_char c :: nat) = 32 \<or> (9 \<le> (of_char c :: nat) \<and> (of_char c :: nat) \<le> 13))"

definition isDigit :: "char \<Rightarrow> bool" where
  "isDigit c = (48 \<le> (of_char c :: nat) \<and> (of_char c :: nat) \<le> 57)"

fun digitsValue :: "string \<Rightarrow> int \<Rightarrow> int option" where
  "digitsValue [] acc = Some acc"
| "digitsValue (c # cs) acc =
     (if isDigit c then digitsValue cs (10 * acc + ((of_char c :: int) - 48)) else None)"

definition inInt4 :: "int \<Rightarrow> int option" where
  "inInt4 v = (if - 2147483648 \<le> v \<and> v \<le> 2147483647 then Some v else None)"

definition unsignedInteger :: "bool \<Rightarrow> string \<Rightarrow> int option" where
  "unsignedInteger negative ds =
     (case ds of
        [] \<Rightarrow> None
      | c # cs \<Rightarrow>
          (case digitsValue ds 0 of
             None \<Rightarrow> None
           | Some n \<Rightarrow> inInt4 (if negative then - n else n)))"

definition pgInteger :: "string \<Rightarrow> int option" where
  "pgInteger s =
     (case rev (dropWhile isSpace (rev (dropWhile isSpace s))) of
        [] \<Rightarrow> None
      | c # cs \<Rightarrow>
          if c = CHR ''-'' then unsignedInteger True cs
          else if c = CHR ''+'' then unsignedInteger False cs
          else unsignedInteger False (c # cs))"

text \<open>\<^verbatim>\<open>db.update(users).set({...updates})\<close> on one row. A key that is absent leaves its
  column alone; keys that are not columns are ignored.\<close>

definition setNullable :: "jsval \<Rightarrow> string option \<Rightarrow> string option" where
  "setNullable v old = (case v of Undefined \<Rightarrow> old | Null \<Rightarrow> None | Str s \<Rightarrow> Some s)"

definition setRequired :: "jsval \<Rightarrow> string \<Rightarrow> string" where
  "setRequired v old = (case v of Str s \<Rightarrow> s | Null \<Rightarrow> old | Undefined \<Rightarrow> old)"

definition setId :: "jsval \<Rightarrow> int \<Rightarrow> int" where
  "setId v old =
     (case v of
        Str s \<Rightarrow> (case pgInteger s of Some n \<Rightarrow> n | None \<Rightarrow> old)
      | Null \<Rightarrow> old
      | Undefined \<Rightarrow> old)"

definition setUser :: "jsobj \<Rightarrow> User \<Rightarrow> User" where
  "setUser updates u =
     u\<lparr>u_id := setId (getProp updates ''id'') (u_id u),
       email := setRequired (getProp updates ''email'') (email u),
       password := setRequired (getProp updates ''password'') (password u),
       firstName := setNullable (getProp updates ''firstName'') (firstName u),
       lastName := setNullable (getProp updates ''lastName'') (lastName u),
       projectName := setNullable (getProp updates ''projectName'') (projectName u),
       clientName := setNullable (getProp updates ''clientName'') (clientName u),
       role := setNullable (getProp updates ''role'') (role u),
       location := setNullable (getProp updates ''location'') (location u)\<rparr>"

definition userColumns :: "string list" where
  "userColumns =
     [''id'', ''email'', ''password'', ''firstName'', ''lastName'', ''projectName'',
      ''clientName'', ''role'', ''location'']"

text \<open>A text for the id that is not an integer.\<close>

definition idInvalid :: "jsobj \<Rightarrow> bool" where
  "idInvalid updates =
     (case getProp updates ''id'' of
        Str s \<Rightarrow> pgInteger s = None
      | Null \<Rightarrow> False
      | Undefined \<Rightarrow> False)"

text \<open>The new id or the new email is already held by a row other than the one updated
  (\<^verbatim>\<open>id\<close> is the primary key, \<^verbatim>\<open>email\<close> is \<^verbatim>\<open>unique\<close>).\<close>

definition uniqueViolated :: "int \<Rightarrow> jsobj \<Rightarrow> User list \<Rightarrow> bool" where
  "uniqueViolated i updates rows =
     list_ex (\<lambda>v. u_id v \<noteq> i \<and>
                 ((case getProp updates ''id'' of
                     Str s \<Rightarrow> pgInteger s = Some (u_id v)
                   | Null \<Rightarrow> False
                   | Undefined \<Rightarrow> False) \<or>
                  getProp updates ''email'' = Str (email v))) rows"

text \<open>
  The update statement of \<^verbatim>\<open>updateUser\<close>. An update in which no column has a value is
  refused by the query builder before it reaches the database; a text that is no integer
  is refused for the id; \<open>null\<close> for a \<^verbatim>\<open>notNull\<close> column and a value that breaks a
  uniqueness constraint are refused when a row is hit. A refused statement throws and
  changes nothing. The call answers with the first row the statement returns.
\<close>

definition updateUsersSet :: "int \<Rightarrow> jsobj \<Rightarrow> db \<Rightarrow> (error + User option) \<times> db" where
  "updateUsersSet i updates st =
     (if list_all (\<lambda>c. getProp updates c = Undefined) userColumns
      then (Inl NoValuesToSet, st)
      else if idInvalid updates then (Inl InvalidColumnValue, st)
      else if getUser i st \<noteq> None \<and>
              (getProp updates ''id'' = Null \<or> getProp updates ''email'' = Null \<or>
               getProp updates ''password'' = Null)
      then (Inl NotNullViolation, st)
      else if getUser i st \<noteq> None \<and> uniqueViolated i updates (users st)
      then (Inl UniqueViolation, st)
      else
        (Inr (map_option (setUser updates) (getUser i st)),
         st\<lparr>users := map (\<lambda>u. if u_id u = i then setUser updates u else u) (users st),
            writes := writes st @ [UpdUser i]\<rparr>))"

definition updateUser :: "int \<Rightarrow> jsobj \<Rightarrow> db \<Rightarrow> (error + User option) \<times> db" where
  "updateUser i updates st =
     (case getUser i st of
        None \<Rightarrow> (Inl NotFoundError, st)
      | Some currentUser \<Rightarrow>
          (case trackFields fieldsToTrack i updates currentUser st of
             (Inl e, st1) \<Rightarrow> (Inl e, st1)
           | (Inr u, st1) \<Rightarrow> updateUsersSet i updates st1))"

section \<open>The route handlers (server/routes.ts)\<close>

datatype 'a response =
    Ok200 'a
  | Created201 'a
  | BadRequest400
  | Forbidden403
  | NotFound404
  | ServerError500

text \<open>The payload of a skill request as the update handler passes it on to the storage
  layer: every key of \<^verbatim>\<open>InsertSkill\<close> that the parser produced.\<close>

definition asPartial :: "InsertSkill \<Rightarrow> PartialSkill" where
  "asPartial d = \<lparr>ps_userId = Some (is_userId d), ps_name = Some (is_name d),
                  ps_level = Some (is_level d),
                  ps_certificationUrl = is_certificationUrl d\<rparr>"

text \<open>
  \<^verbatim>\<open>POST /api/skills\<close>. The first argument is the id of the authenticated user (the
  middleware \<^verbatim>\<open>ensureAuthenticated\<close> has let the request through), the second the outcome
  of \<^verbatim>\<open>insertSkillSchema.parse(req.body)\<close>: \<open>None\<close> when it throws a \<^verbatim>\<open>ZodError\<close>.
\<close>

definition postSkill :: "int \<Rightarrow> InsertSkill option \<Rightarrow> db \<Rightarrow> Skill response \<times> db" where
  "postSkill reqUser parsed st =
     (case parsed of
        None \<Rightarrow> (BadRequest400, st)
      | Some skillData \<Rightarrow>
          if is_userId skillData \<noteq> reqUser then (Forbidden403, st)
          else
            let (skill, st1) = createSkill skillData st;
                (h, st2) = createSkillHistory
                             \<lparr>ish_skillId = s_id skill, ish_userId = is_userId skillData,
                              ish_name = is_name skillData, ish_level = is_level skillData,
                              ish_certificationUrl = is_certificationUrl skillData,
                              ish_updatedAt = None\<rparr> st1
            in (Created201 skill, st2))"

text \<open>\<^verbatim>\<open>PUT /api/skills/:id\<close>; \<open>skillId\<close> is \<^verbatim>\<open>parseInt(req.params.id)\<close>.\<close>

definition putSkill ::
  "int \<Rightarrow> int \<Rightarrow> InsertSkill option \<Rightarrow> db \<Rightarrow> Skill option response \<times> db" where
  "putSkill reqUser skillId parsed st =
     (case parsed of
        None \<Rightarrow> (BadRequest400, st)
      | Some skillData \<Rightarrow>
          if is_userId skillData \<noteq> reqUser then (Forbidden403, st)
          else
            (case getSkillById skillId st of
              None \<Rightarrow> (NotFound404, st)
            | Some existingSkill \<Rightarrow>
                if s_userId existingSkill \<noteq> reqUser then (Forbidden403, st)
                else
                  let st1 =
                    (if s_level existingSkill \<noteq> is_level skillData \<or>
                        col (s_certificationUrl existingSkill) \<noteq> is_certificationUrl skillData
                     then snd (createSkillHistory
                            \<lparr>ish_skillId = skillId, ish_userId = is_userId skillData,
                             ish_name = is_name skillData, ish_level = is_level skillData,
                             ish_certificationUrl = is_certificationUrl skillData,
                             ish_updatedAt = None\<rparr> st)
                     else st)
                  in (case updateSkill skillId (asPartial skillData) st1 of
                        (Inl e, st2) \<Rightarrow> (ServerError500, st2)
                      | (Inr updatedSkill, st2) \<Rightarrow> (Ok200 updatedSkill, st2))))"

text \<open>The label of a history entry:
  \<^verbatim>\<open>field.replace(/([A-Z])/g, ' $1').replace(/^./, str => str.toUpperCase())\<close>,
  on the ASCII letters of the field names.\<close>

definition isUpper :: "char \<Rightarrow> bool" where
  "isUpper c = (65 \<le> (of_char c :: nat) \<and> (of_char c :: nat) \<le> 90)"

definition toUpperCase :: "char \<Rightarrow> char" where
  "toUpperCase c =
     (if 97 \<le> (of_char c :: nat) \<and> (of_char c :: nat) \<le> 122
      then char_of ((of_char c :: nat) - 32) else c)"

definition fieldLabel :: "string \<Rightarrow> string" where
  "fieldLabel field =
     (case concat (map (\<lambda>c. if isUpper c then [CHR '' '', c] else [c]) field) of
        [] \<Rightarrow> []
      | c # cs \<Rightarrow> toUpperCase c # cs)"

definition updatableFields :: "string list" where
  "updatableFields =
     [''firstName'', ''lastName'', ''projectName'', ''clientName'', ''role'', ''location'']"

text \<open>The loop of the profile handler over \<^verbatim>\<open>updatableFields\<close>, which fills
  \<^verbatim>\<open>profileUpdates\<close> and \<^verbatim>\<open>historyEntries\<close>.\<close>

fun collectChanges ::
  "string list \<Rightarrow> int \<Rightarrow> jsobj \<Rightarrow> User \<Rightarrow> jsobj \<times> InsertProfileHistory list
     \<Rightarrow> jsobj \<times> InsertProfileHistory list" where
  "collectChanges [] userId body currentUser acc = acc"
| "collectChanges (field # rest) userId body currentUser (profileUpdates, historyEntries) =
     (if truthy (getProp body field) \<and> getProp body field \<noteq> userField currentUser field
      then collectChanges rest userId body currentUser
             (assign field (getProp body field) profileUpdates,
              historyEntries @
                [\<lparr>iph_userId = userId, iph_field = fieldLabel field,
                  iph_previousValue =
                    (if truthy (userField currentUser field)
                     then userField currentUser field else Str []),
                  iph_newValue = getProp body field,
                  iph_updatedAt = None\<rparr>])
      else collectChanges rest userId body currentUser (profileUpdates, historyEntries))"

fun createEntries :: "InsertProfileHistory list \<Rightarrow> db \<Rightarrow> (error + unit) \<times> db" where
  "createEntries [] st = (Inr (), st)"
| "createEntries (entry # rest) st =
     (case createProfileHistory entry st of
        (Inl e, st1) \<Rightarrow> (Inl e, st1)
      | (Inr h, st1) \<Rightarrow> createEntries rest st1)"

text \<open>\<^verbatim>\<open>PUT /api/users/:id/profile\<close>; \<open>userId\<close> is \<^verbatim>\<open>parseInt(req.params.id)\<close>.\<close>

definition putProfile :: "int \<Rightarrow> int \<Rightarrow> jsobj \<Rightarrow> db \<Rightarrow> User option response \<times> db" where
  "putProfile reqUser userId body st =
     (if reqUser \<noteq> userId then (Forbidden403, st)
      else
        (case getUser userId st of
           None \<Rightarrow> (NotFound404, st)
         | Some currentUser \<Rightarrow>
             let (profileUpdates, historyEntries) =
                   collectChanges updatableFields userId body currentUser ([], [])
             in if length profileUpdates > 0
                then
                  (case updateUser userId profileUpdates st of
                     (Inl e, st1) \<Rightarrow> (ServerError500, st1)
                   | (Inr updatedUser, st1) \<Rightarrow>
                       (case createEntries historyEntries st1 of
                          (Inl e, st2) \<Rightarrow> (ServerError500, st2)
                        | (Inr u, st2) \<Rightarrow> (Ok200 updatedUser, st2)))
                else (Ok200 (Some currentUser), st)))"

section \<open>Reading the log of writes\<close>

text \<open>The writes a call has added to the log.\<close>

definition writesSince :: "db \<Rightarrow> db \<Rightarrow> dbwrite list" where
  "writesSince st st' = drop (length (writes st)) (writes st')"

fun isHistoryInsert :: "dbwrite \<Rightarrow> bool" where
  "isHistoryInsert (InsProfileHistory i) = True"
| "isHistoryInsert w = False"

text \<open>In a sequence of writes, no profile-history row is inserted once a user row has been
  updated.\<close>

fun historyBeforeUpdate :: "dbwrite list \<Rightarrow> bool" where
  "historyBeforeUpdate [] = True"
| "historyBeforeUpdate (UpdUser i # ws) = list_all (\<lambda>w. \<not> isHistoryInsert w) ws"
| "historyBeforeUpdate (w # ws) = historyBeforeUpdate ws"



text \<open>The profile-history rows a call has added.\<close>

definition newProfileRows :: "db \<Rightarrow> db \<Rightarrow> ProfileHistory list" where
  "newProfileRows st st' = drop (length (profileHistory st)) (profileHistory st')"

section \<open>Change detection as the specification words it\<close>

text \<open>A field of the payload counts as changed when it is present and its value is not the
  stored one.\<close>

definition valueChanged :: "jsobj \<Rightarrow> User \<Rightarrow> string \<Rightarrow> bool" where
  "valueChanged body u field =
     (getProp body field \<noteq> Undefined \<and> getProp body field \<noteq> userField u field)"

text \<open>A change to \<open>null\<close>, which the history table cannot record.\<close>

definition rejectedChange :: "jsobj \<Rightarrow> User \<Rightarrow> string \<Rightarrow> bool" where
  "rejectedChange updates u field =
     (valueChanged updates u field \<and> getProp updates field = Null)"

text \<open>What the two loops take for a change.\<close>

definition routeChanged :: "jsobj \<Rightarrow> User \<Rightarrow> string \<Rightarrow> bool" where
  "routeChanged body u field =
     (truthy (getProp body field) \<and> getProp body field \<noteq> userField u field)"

section \<open>A small store to run the handlers on\<close>

definition demoUser :: User where
  "demoUser = \<lparr>u_id = 1, email = ''demo@example.com'', password = ''hashed'',
                firstName = Some ''Demo'', lastName = Some ''User'',
                projectName = Some ''Cloud Migration'', clientName = Some ''Acme Corp'',
                role = None, location = Some ''New York, NY''\<rparr>"

definition goSkill :: Skill where
  "goSkill = \<lparr>s_id = 1, s_userId = 1, s_name = ''Go'', s_level = ''Beginner'',
               s_updatedAt = 900, s_certificationUrl = None\<rparr>"

definition otherSkill :: Skill where
  "otherSkill = \<lparr>s_id = 2, s_userId = 7, s_name = ''Rust'', s_level = ''Expert'',
                  s_updatedAt = 901, s_certificationUrl = None\<rparr>"

definition store0 :: db where
  "store0 = \<lparr>users = [demoUser], skills = [goSkill, otherSkill], skillHistory = [],
              profileHistory = [], nextSkillId = 3, nextSkillHistoryId = 1,
              nextProfileHistoryId = 1, clock = (\<lambda>n. 1000 + int n), reads = 0,
              writes = []\<rparr>"

text \<open>The same store where the skill "Go" carries a certification.\<close>

definition storeCertified :: db where
  "storeCertified =
     store0\<lparr>skills := [goSkill\<lparr>s_certificationUrl := Some ''https://x/y''\<rparr>, otherSkill]\<rparr>"

text \<open>The same store with a second user.\<close>

definition storeTwoUsers :: db where
  "storeTwoUsers =
     store0\<lparr>users := [demoUser, demoUser\<lparr>u_id := 2, email := ''second@example.com''\<rparr>]\<rparr>"


section \<open>What the storage calls leave alone\<close>

lemma createProfileHistory_users:
  "users (snd (createProfileHistory h st)) = users st"
  by (simp add: createProfileHistory_def stamp_def newDate_def Let_def
           split: jsval.splits option.splits prod.splits)

lemma createProfileHistory_writes:
  "\<exists>hs. writes (snd (createProfileHistory h st)) = writes st @ hs \<and>
        list_all isHistoryInsert hs"
  by (simp add: createProfileHistory_def stamp_def newDate_def Let_def
           split: jsval.splits option.splits prod.splits)

lemma createProfileHistory_row:
  "createProfileHistory h st = (Inr row, st') \<Longrightarrow>
   profileHistory st' = profileHistory st @ [row] \<and> ph_field row = iph_field h"
  by (auto simp: createProfileHistory_def stamp_def newDate_def Let_def
           split: jsval.splits option.splits prod.splits)

lemma trackFields_users:
  "users (snd (trackFields fs i updates cur st)) = users st"
proof (induction fs arbitrary: st)
  case Nil
  show ?case by simp
next
  case (Cons f fs)
  show ?case
  proof (cases "getProp updates f \<noteq> Undefined \<and> getProp updates f \<noteq> userField cur f")
    case False
    then show ?thesis using Cons.IH by auto
  next
    case True
    let ?h = "\<lparr>iph_userId = i, iph_field = f, iph_previousValue = userField cur f,
               iph_newValue = getProp updates f, iph_updatedAt = Some (fst (newDate st))\<rparr>"
    obtain r st2 where c: "createProfileHistory ?h (snd (newDate st)) = (r, st2)"
      by (cases "createProfileHistory ?h (snd (newDate st))")
    have u: "users st2 = users st"
      using createProfileHistory_users [of ?h "snd (newDate st)"] c
      by (simp add: newDate_def)
    show ?thesis
    proof (cases r)
      case (Inl e)
      then show ?thesis using True c u by simp
    next
      case (Inr row)
      then show ?thesis using True c u Cons.IH [of st2] by simp
    qed
  qed
qed

lemma trackFields_writes:
  "\<exists>hs. writes (snd (trackFields fs i updates cur st)) = writes st @ hs \<and>
        list_all isHistoryInsert hs"
proof (induction fs arbitrary: st)
  case Nil
  show ?case by simp
next
  case (Cons f fs)
  show ?case
  proof (cases "getProp updates f \<noteq> Undefined \<and> getProp updates f \<noteq> userField cur f")
    case False
    then show ?thesis using Cons.IH [of st] by auto
  next
    case True
    let ?h = "\<lparr>iph_userId = i, iph_field = f, iph_previousValue = userField cur f,
               iph_newValue = getProp updates f, iph_updatedAt = Some (fst (newDate st))\<rparr>"
    obtain r st2 where c: "createProfileHistory ?h (snd (newDate st)) = (r, st2)"
      by (cases "createProfileHistory ?h (snd (newDate st))")
    obtain hs where w: "writes st2 = writes st @ hs" "list_all isHistoryInsert hs"
      using createProfileHistory_writes [of ?h "snd (newDate st)"] c
      by (auto simp: newDate_def)
    show ?thesis
    proof (cases r)
      case (Inl e)
      then show ?thesis using True c w by auto
    next
      case (Inr row)
      obtain hs' where w': "writes (snd (trackFields fs i updates cur st2)) = writes st2 @ hs'"
          "list_all isHistoryInsert hs'"
        using Cons.IH [of st2] by auto
      have "writes (snd (trackFields (f # fs) i updates cur st)) = writes st @ (hs @ hs')"
        using True c Inr w w' by simp
      moreover have "list_all isHistoryInsert (hs @ hs')"
        using w w' by simp
      ultimately show ?thesis by blast
    qed
  qed
qed

lemma createEntries_users:
  "users (snd (createEntries hs st)) = users st"
proof (induction hs arbitrary: st)
  case Nil
  show ?case by simp
next
  case (Cons h hs)
  obtain r st1 where c: "createProfileHistory h st = (r, st1)"
    by (cases "createProfileHistory h st")
  have u: "users st1 = users st"
    using createProfileHistory_users [of h st] c by simp
  show ?case
    by (cases r) (use c u Cons.IH [of st1] in simp_all)
qed

lemma getProp_assign:
  "getProp (assign k v obj) k' = (if k' = k then v else getProp obj k')"
  by (induction obj) (auto simp: getProp_def)

lemma assign_fresh: "k \<notin> fst ` set obj \<Longrightarrow> assign k v obj = obj @ [(k, v)]"
  by (induction obj) auto

lemma collectChanges_other_key:
  "k \<notin> set fs \<Longrightarrow>
   getProp (fst (collectChanges fs i body cur (pu, hs))) k = getProp pu k"
  by (induction fs arbitrary: pu hs) (auto simp: getProp_assign)

lemma collectChanges_nothing:
  "list_all (\<lambda>f. \<not> routeChanged body cur f) fs \<Longrightarrow>
   collectChanges fs i body cur (pu, hs) = (pu, hs)"
  by (induction fs) (auto simp: routeChanged_def)

lemma find_setSkill:
  "find (\<lambda>s. s_id s = i) (map (\<lambda>s. if s_id s = i then setSkill u now s else s) xs) =
   map_option (setSkill u now) (find (\<lambda>s. s_id s = i) xs)"
  by (induction xs) (auto simp: setSkill_def)

section \<open>Profile updates write their history twice\<close>

text \<open>
  Claim C1 asks for exactly \<open>k\<close> profile-history rows when a profile update changes \<open>k\<close> of
  the fields role, projectName, clientName and location. The handler does not do that:
  \<^verbatim>\<open>updateUser\<close> writes one row for each such field, and after it has returned the handler
  writes the entries it collected itself. On the demo user, whose role is \<open>null\<close>, a request
  that sets only the role to "Engineer" leaves two rows behind: the storage layer's, under
  the column name and with the stored \<open>null\<close> as previous value, and the handler's, under the
  label and with the empty string as previous value.
\<close>

theorem profile_role_change_writes_two_rows:
  "profileHistory (snd (putProfile 1 1 [(''role'', Str ''Engineer'')] store0)) =
     [\<lparr>ph_id = 1, ph_userId = 1, ph_field = ''role'', ph_previousValue = None,
       ph_newValue = ''Engineer'', ph_updatedAt = 1000\<rparr>,
      \<lparr>ph_id = 2, ph_userId = 1, ph_field = ''Role'', ph_previousValue = Some [],
       ph_newValue = ''Engineer'', ph_updatedAt = 1001\<rparr>]"
  by code_simp

text \<open>Two rows where the user had none.\<close>

theorem profile_role_change_writes_two_rows_witness:
  "length (profileHistory (snd (putProfile 1 1 [(''role'', Str ''Engineer'')] store0))) = 2"
  unfolding profile_role_change_writes_two_rows
  by simp

section \<open>Skill creation writes its history twice\<close>

text \<open>
  Claim C2 asks for exactly one skill-history row for a created skill. \<^verbatim>\<open>createSkill\<close> writes
  the initial row, and the handler of \<^verbatim>\<open>POST /api/skills\<close> writes a second one with the same
  name, level and certification URL: an accepted creation leaves two rows for the new skill.
\<close>

theorem skill_creation_writes_two_rows:
  "skillHistory (snd (postSkill 1
      (Some \<lparr>is_userId = 1, is_name = ''TypeScript'', is_level = ''Expert'',
              is_certificationUrl = Null\<rparr>) store0)) =
     [\<lparr>sh_id = 1, sh_skillId = 3, sh_userId = 1, sh_name = ''TypeScript'',
       sh_level = ''Expert'', sh_updatedAt = 1000, sh_certificationUrl = None\<rparr>,
      \<lparr>sh_id = 2, sh_skillId = 3, sh_userId = 1, sh_name = ''TypeScript'',
       sh_level = ''Expert'', sh_updatedAt = 1001, sh_certificationUrl = None\<rparr>]"
  by code_simp

section \<open>A changed level writes its history twice\<close>

text \<open>
  Claim C3 asks for exactly one new skill-history row when an update changes the level or
  the certification URL. The handler of \<^verbatim>\<open>PUT /api/skills/:id\<close> writes a row when either
  differs, and \<^verbatim>\<open>updateSkill\<close> then makes the same comparison and writes another: the owner's
  update of the skill "Go" from Beginner without certification to Expert with one leaves two
  new rows, both with the values after the update.
\<close>

theorem skill_level_change_writes_two_rows:
  "getSkillById 1 store0 = Some goSkill \<and> skillHistory store0 = [] \<and>
   skillHistory (snd (putSkill 1 1
      (Some \<lparr>is_userId = 1, is_name = ''Go'', is_level = ''Expert'',
              is_certificationUrl = Str ''https://x/y''\<rparr>) store0)) =
     [\<lparr>sh_id = 1, sh_skillId = 1, sh_userId = 1, sh_name = ''Go'',
       sh_level = ''Expert'', sh_updatedAt = 1000,
       sh_certificationUrl = Some ''https://x/y''\<rparr>,
      \<lparr>sh_id = 2, sh_skillId = 1, sh_userId = 1, sh_name = ''Go'',
       sh_level = ''Expert'', sh_updatedAt = 1001,
       sh_certificationUrl = Some ''https://x/y''\<rparr>]"
  by code_simp

text \<open>Two rows where the skill had none.\<close>

theorem skill_level_change_writes_two_rows_witness:
  "length (skillHistory (snd (putSkill 1 1
      (Some \<lparr>is_userId = 1, is_name = ''Go'', is_level = ''Expert'',
              is_certificationUrl = Str ''https://x/y''\<rparr>) store0))) = 2"
  unfolding skill_level_change_writes_two_rows [THEN conjunct2, THEN conjunct2]
  by simp

section \<open>The storage layer writes history before it updates the user\<close>

lemma historyBeforeUpdate_inserts:
  "list_all isHistoryInsert hs \<Longrightarrow> historyBeforeUpdate (hs @ ws) = historyBeforeUpdate ws"
proof (induction hs)
  case Nil
  show ?case by simp
next
  case (Cons h hs)
  then show ?case by (cases h) simp_all
qed

text \<open>
  Claim C4, for the rows of the storage layer. Whatever \<^verbatim>\<open>updateUser\<close> is called with, and
  whether it returns or throws, among the writes it makes no profile-history row is
  inserted after the user row has been updated; and when the call returns, its writes are
  the rows for the tracked fields followed by the update of the user row, which is the
  last write.
\<close>

theorem storage_history_precedes_user_update:
  "historyBeforeUpdate (writesSince st (snd (updateUser i updates st))) \<and>
   (\<forall>u. fst (updateUser i updates st) = Inr u \<longrightarrow>
      (\<exists>hs. writesSince st (snd (updateUser i updates st)) = hs @ [UpdUser i] \<and>
            list_all isHistoryInsert hs))"
proof (cases "getUser i st")
  case None
  then show ?thesis by (simp add: updateUser_def writesSince_def)
next
  case (Some cur)
  obtain r st1 where t: "trackFields fieldsToTrack i updates cur st = (r, st1)"
    by (cases "trackFields fieldsToTrack i updates cur st")
  obtain hs where w: "writes st1 = writes st @ hs" "list_all isHistoryInsert hs"
    using trackFields_writes [of fieldsToTrack i updates cur st] t by auto
  have before: "historyBeforeUpdate hs" "historyBeforeUpdate (hs @ [UpdUser i])"
    using historyBeforeUpdate_inserts [OF w(2), of "[]"]
          historyBeforeUpdate_inserts [OF w(2), of "[UpdUser i]"]
    by simp_all
  have set: "(\<exists>e. fst (updateUsersSet i updates st1) = Inl e) \<and>
               writes (snd (updateUsersSet i updates st1)) = writes st1 \<or>
             writes (snd (updateUsersSet i updates st1)) = writes st1 @ [UpdUser i]"
    by (simp add: updateUsersSet_def)
  have "(\<exists>e. fst (updateUser i updates st) = Inl e) \<and>
          writesSince st (snd (updateUser i updates st)) = hs \<or>
        writesSince st (snd (updateUser i updates st)) = hs @ [UpdUser i]"
  proof (cases r)
    case (Inl e)
    then show ?thesis
      using Some t w by (simp add: updateUser_def writesSince_def)
  next
    case (Inr x)
    have run: "updateUser i updates st = updateUsersSet i updates st1"
      using Some t Inr by (simp add: updateUser_def)
    show ?thesis
      using set w(1) unfolding run writesSince_def by auto
  qed
  then show ?thesis
  proof
    assume "(\<exists>e. fst (updateUser i updates st) = Inl e) \<and>
            writesSince st (snd (updateUser i updates st)) = hs"
    then show ?thesis using before(1) by auto
  next
    assume "writesSince st (snd (updateUser i updates st)) = hs @ [UpdUser i]"
    then show ?thesis using before(2) w(2) by auto
  qed
qed

text \<open>On the demo user with a new role and a new location: two rows, then the user.\<close>

theorem storage_history_precedes_user_update_witness:
  "historyBeforeUpdate (writesSince store0 (snd (updateUser 1
      [(''role'', Str ''Engineer''), (''location'', Str ''Berlin'')] store0))) \<and>
   fst (updateUser 1 [(''role'', Str ''Engineer''), (''location'', Str ''Berlin'')] store0) =
     Inr (Some (demoUser\<lparr>role := Some ''Engineer'', location := Some ''Berlin''\<rparr>)) \<and>
   writesSince store0 (snd (updateUser 1
      [(''role'', Str ''Engineer''), (''location'', Str ''Berlin'')] store0)) =
     [InsProfileHistory 1, InsProfileHistory 2, UpdUser 1]"
proof (intro conjI)
  show "historyBeforeUpdate (writesSince store0 (snd (updateUser 1
      [(''role'', Str ''Engineer''), (''location'', Str ''Berlin'')] store0)))"
    by (rule storage_history_precedes_user_update [THEN conjunct1])
next
  show "fst (updateUser 1 [(''role'', Str ''Engineer''), (''location'', Str ''Berlin'')]
          store0) =
     Inr (Some (demoUser\<lparr>role := Some ''Engineer'', location := Some ''Berlin''\<rparr>))"
    by code_simp
next
  show "writesSince store0 (snd (updateUser 1
      [(''role'', Str ''Engineer''), (''location'', Str ''Berlin'')] store0)) =
     [InsProfileHistory 1, InsProfileHistory 2, UpdUser 1]"
    by code_simp
qed

text \<open>
  The claim as stated speaks of every row generated for the update, and the handler's own
  entries are written after \<^verbatim>\<open>updateUser\<close> has returned, that is after the user row was
  updated.
\<close>

theorem route_history_follows_user_update:
  "writesSince store0 (snd (putProfile 1 1 [(''role'', Str ''Engineer'')] store0)) =
     [InsProfileHistory 1, UpdUser 1, InsProfileHistory 2] \<and>
   \<not> historyBeforeUpdate
       (writesSince store0 (snd (putProfile 1 1 [(''role'', Str ''Engineer'')] store0)))"
  by code_simp

section \<open>Ownership is checked before anything is written\<close>

text \<open>
  Claim C5. A request to create a skill whose payload names another user than the
  requester, and a request to update a skill whose payload names another user or whose
  stored skill belongs to another user, is answered with 403 Forbidden, and the store it
  leaves behind is the store it found: no row of any table is inserted or changed, no
  serial is consumed and nothing is added to the log of writes.
\<close>

theorem forbidden_skill_requests_write_nothing:
  "(is_userId d \<noteq> reqUser \<longrightarrow> postSkill reqUser (Some d) st = (Forbidden403, st)) \<and>
   (is_userId d \<noteq> reqUser \<or> (\<exists>e. getSkillById i st = Some e \<and> s_userId e \<noteq> reqUser)
      \<longrightarrow> putSkill reqUser i (Some d) st = (Forbidden403, st))"
  by (auto simp: postSkill_def putSkill_def)

text \<open>A payload for user 7 sent by user 1, and user 1 updating the skill of user 7.\<close>

theorem forbidden_skill_requests_write_nothing_witness:
  "postSkill 1 (Some \<lparr>is_userId = 7, is_name = ''Go'', is_level = ''Expert'',
                       is_certificationUrl = Null\<rparr>) store0 = (Forbidden403, store0) \<and>
   getSkillById 2 store0 = Some otherSkill \<and> s_userId otherSkill \<noteq> 1 \<and>
   putSkill 1 2 (Some \<lparr>is_userId = 1, is_name = ''Rust'', is_level = ''Beginner'',
                        is_certificationUrl = Null\<rparr>) store0 = (Forbidden403, store0)"
proof -
  have g: "getSkillById 2 store0 = Some otherSkill"
    by (simp add: getSkillById_def store0_def goSkill_def otherSkill_def)
  have o: "s_userId otherSkill \<noteq> 1"
    by (simp add: otherSkill_def)
  have a: "postSkill 1 (Some \<lparr>is_userId = 7, is_name = ''Go'', is_level = ''Expert'',
                       is_certificationUrl = Null\<rparr>) store0 = (Forbidden403, store0)"
    using forbidden_skill_requests_write_nothing
            [where d = "\<lparr>is_userId = 7, is_name = ''Go'', is_level = ''Expert'',
                  is_certificationUrl = Null\<rparr>" and reqUser = 1 and st = store0 and i = 2]
    by simp
  have b: "putSkill 1 2 (Some \<lparr>is_userId = 1, is_name = ''Rust'', is_level = ''Beginner'',
                        is_certificationUrl = Null\<rparr>) store0 = (Forbidden403, store0)"
    using forbidden_skill_requests_write_nothing
            [where d = "\<lparr>is_userId = 1, is_name = ''Rust'', is_level = ''Beginner'',
                  is_certificationUrl = Null\<rparr>" and reqUser = 1 and st = store0 and i = 2] g o
    by simp
  show ?thesis using a b g o by simp
qed

section \<open>Renaming a skill can write history\<close>

text \<open>
  Claim C6 asks for no skill-history row when an update changes only the name. The handler
  of \<^verbatim>\<open>PUT /api/skills/:id\<close> compares the stored certification URL with the payload's by
  \<^verbatim>\<open>!==\<close> alone, without the test for \<open>undefined\<close> that \<^verbatim>\<open>updateSkill\<close> makes. The key is
  optional; when the owner renames the certified skill "Go" with a payload that leaves it
  out, the stored URL differs from \<open>undefined\<close> and the handler writes a row, with no
  certification in it, while the skill keeps its level and its URL and only takes the
  new name.
\<close>

theorem rename_without_certification_writes_history:
  "getSkillById 1 storeCertified =
     Some \<lparr>s_id = 1, s_userId = 1, s_name = ''Go'', s_level = ''Beginner'',
           s_updatedAt = 900, s_certificationUrl = Some ''https://x/y''\<rparr> \<and>
   skillHistory storeCertified = [] \<and>
   skillHistory (snd (putSkill 1 1
      (Some \<lparr>is_userId = 1, is_name = ''Golang'', is_level = ''Beginner'',
              is_certificationUrl = Undefined\<rparr>) storeCertified)) =
     [\<lparr>sh_id = 1, sh_skillId = 1, sh_userId = 1, sh_name = ''Golang'',
       sh_level = ''Beginner'', sh_updatedAt = 1000, sh_certificationUrl = None\<rparr>] \<and>
   getSkillById 1 (snd (putSkill 1 1
      (Some \<lparr>is_userId = 1, is_name = ''Golang'', is_level = ''Beginner'',
              is_certificationUrl = Undefined\<rparr>) storeCertified)) =
     Some \<lparr>s_id = 1, s_userId = 1, s_name = ''Golang'', s_level = ''Beginner'',
           s_updatedAt = 1001, s_certificationUrl = Some ''https://x/y''\<rparr>"
  by code_simp

text \<open>One row where the skill had none.\<close>

theorem rename_without_certification_writes_history_witness:
  "length (skillHistory (snd (putSkill 1 1
      (Some \<lparr>is_userId = 1, is_name = ''Golang'', is_level = ''Beginner'',
              is_certificationUrl = Undefined\<rparr>) storeCertified))) = 1"
  unfolding rename_without_certification_writes_history
              [THEN conjunct2, THEN conjunct2, THEN conjunct1]
  by simp

text \<open>The same happens when the stored certification is \<open>null\<close>.\<close>

lemma absent_certification_counts_as_change:
  "skillHistory (snd (putSkill 1 1
      (Some \<lparr>is_userId = 1, is_name = ''Golang'', is_level = ''Beginner'',
              is_certificationUrl = Undefined\<rparr>) store0)) =
     [\<lparr>sh_id = 1, sh_skillId = 1, sh_userId = 1, sh_name = ''Golang'',
       sh_level = ''Beginner'', sh_updatedAt = 1000, sh_certificationUrl = None\<rparr>]"
  by code_simp

text \<open>
  A payload that carries the stored level and the stored certification URL (the same
  string, or \<open>null\<close> for a stored \<open>null\<close>) does what the claim says: no skill-history row is
  inserted by the handler or by \<^verbatim>\<open>updateSkill\<close>, the answer is 200 with the updated row, and
  the skill row carries the name of the payload.
\<close>

lemma rename_with_certification_writes_no_history:
  assumes "getSkillById skillId st = Some e"
    and "s_userId e = reqUser" and "is_userId d = reqUser"
    and "is_level d = s_level e"
    and "is_certificationUrl d = col (s_certificationUrl e)"
  shows "skillHistory (snd (putSkill reqUser skillId (Some d) st)) = skillHistory st \<and>
         fst (putSkill reqUser skillId (Some d) st) =
           Ok200 (getSkillById skillId (snd (putSkill reqUser skillId (Some d) st))) \<and>
         (\<exists>s. getSkillById skillId (snd (putSkill reqUser skillId (Some d) st)) = Some s \<and>
              s_name s = is_name d)"
proof -
  let ?now = "clock st (reads st)"
  let ?st' = "st\<lparr>reads := Suc (reads st),
                  skills := map (\<lambda>s. if s_id s = skillId
                                       then setSkill (asPartial d) ?now s else s) (skills st),
                  writes := writes st @ [UpdSkill skillId]\<rparr>"
  have f: "find (\<lambda>s. s_id s = skillId) (skills st) = Some e"
    using assms(1) by (simp add: getSkillById_def)
  have run: "putSkill reqUser skillId (Some d) st =
               (Ok200 (Some (setSkill (asPartial d) ?now e)), ?st')"
    using assms f
    by (simp add: putSkill_def updateSkill_def newDate_def getSkillById_def asPartial_def
                  find_setSkill)
  have got: "getSkillById skillId ?st' = Some (setSkill (asPartial d) ?now e)"
    using f by (simp add: getSkillById_def find_setSkill)
  have name: "s_name (setSkill (asPartial d) ?now e) = is_name d"
    by (simp add: setSkill_def asPartial_def)
  show ?thesis
    using run got name by simp
qed

lemma rename_with_certification_example:
  "getSkillById 1 store0 = Some goSkill \<and>
   skillHistory (snd (putSkill 1 1
      (Some \<lparr>is_userId = 1, is_name = ''Golang'', is_level = ''Beginner'',
              is_certificationUrl = Null\<rparr>) store0)) = [] \<and>
   getSkillById 1 (snd (putSkill 1 1
      (Some \<lparr>is_userId = 1, is_name = ''Golang'', is_level = ''Beginner'',
              is_certificationUrl = Null\<rparr>) store0)) =
     Some (goSkill\<lparr>s_name := ''Golang'', s_updatedAt := 1000\<rparr>)"
proof -
  have g: "getSkillById 1 store0 = Some goSkill"
    by (simp add: getSkillById_def store0_def goSkill_def)
  have h: "skillHistory store0 = []"
    by (simp add: store0_def)
  note t = rename_with_certification_writes_no_history [OF g, of 1
      "\<lparr>is_userId = 1, is_name = ''Golang'', is_level = ''Beginner'',
        is_certificationUrl = Null\<rparr>"]
  have "getSkillById 1 (snd (putSkill 1 1
      (Some \<lparr>is_userId = 1, is_name = ''Golang'', is_level = ''Beginner'',
              is_certificationUrl = Null\<rparr>) store0)) =
     Some (goSkill\<lparr>s_name := ''Golang'', s_updatedAt := 1000\<rparr>)"
    by code_simp
  then show ?thesis
    using g h t by (simp add: goSkill_def)
qed

section \<open>A profile update that changes nothing\<close>

text \<open>
  Claim C7, for the fields the handler looks at. When none of the six updatable fields
  (firstName, lastName, projectName, clientName, role, location) carries a non-empty value
  that differs from the stored one, the handler answers 200 with the current user and
  leaves the store exactly as it was: no profile-history row and no change to the user row.
\<close>

theorem unchanged_profile_is_returned_untouched:
  assumes "getUser userId st = Some cur"
    and "list_all (\<lambda>f. \<not> routeChanged body cur f) updatableFields"
  shows "putProfile userId userId body st = (Ok200 (Some cur), st)"
  using assms collectChanges_nothing [of body cur updatableFields userId "[]" "[]"]
  by (simp add: putProfile_def)

text \<open>An empty role, the stored first name and a \<open>null\<close> location change nothing.\<close>

theorem unchanged_profile_is_returned_untouched_witness:
  "getUser 1 store0 = Some demoUser \<and>
   putProfile 1 1 [(''role'', Str []), (''firstName'', Str ''Demo''), (''location'', Null)]
     store0 = (Ok200 (Some demoUser), store0)"
proof -
  have g: "getUser 1 store0 = Some demoUser"
    by (simp add: getUser_def store0_def demoUser_def)
  have n: "list_all (\<lambda>f. \<not> routeChanged
              [(''role'', Str []), (''firstName'', Str ''Demo''), (''location'', Null)]
              demoUser f) updatableFields"
    by (simp add: updatableFields_def routeChanged_def getProp_def userField_def demoUser_def)
  show ?thesis
    using g unchanged_profile_is_returned_untouched [OF g n] by simp
qed

text \<open>
  With "tracked field" read as the specification lists them (role, projectName, clientName,
  location) the claim fails: a request that changes only the first name changes none of
  them, and the handler still writes a profile-history row for it.
\<close>

theorem first_name_change_writes_history:
  "\<not> valueChanged [(''firstName'', Str ''Ann'')] demoUser ''role'' \<and>
   \<not> valueChanged [(''firstName'', Str ''Ann'')] demoUser ''projectName'' \<and>
   \<not> valueChanged [(''firstName'', Str ''Ann'')] demoUser ''clientName'' \<and>
   \<not> valueChanged [(''firstName'', Str ''Ann'')] demoUser ''location'' \<and>
   getUser 1 store0 = Some demoUser \<and>
   profileHistory store0 = [] \<and>
   profileHistory (snd (putProfile 1 1 [(''firstName'', Str ''Ann'')] store0)) =
     [\<lparr>ph_id = 1, ph_userId = 1, ph_field = ''First Name'', ph_previousValue = Some ''Demo'',
       ph_newValue = ''Ann'', ph_updatedAt = 1000\<rparr>]"
  by code_simp

section \<open>What counts as a change\<close>

lemma collectChanges_keys:
  "distinct fs \<Longrightarrow> set fs \<inter> fst ` set pu = {} \<Longrightarrow>
   map fst (fst (collectChanges fs i body cur (pu, hs))) =
     map fst pu @ filter (routeChanged body cur) fs"
proof (induction fs arbitrary: pu hs)
  case Nil
  show ?case by simp
next
  case (Cons f fs)
  show ?case
  proof (cases "truthy (getProp body f) \<and> getProp body f \<noteq> userField cur f")
    case False
    have d: "distinct fs" "set fs \<inter> fst ` set pu = {}"
      using Cons.prems by auto
    have "collectChanges (f # fs) i body cur (pu, hs) = collectChanges fs i body cur (pu, hs)"
      using False by auto
    moreover have "filter (routeChanged body cur) (f # fs) = filter (routeChanged body cur) fs"
      using False by (auto simp: routeChanged_def)
    ultimately show ?thesis
      using Cons.IH [OF d, of hs] by (simp only: )
  next
    case True
    have fresh: "f \<notin> fst ` set pu" using Cons.prems by auto
    have a: "assign f (getProp body f) pu = pu @ [(f, getProp body f)]"
      using fresh by (rule assign_fresh)
    have d: "distinct fs" "set fs \<inter> fst ` set (pu @ [(f, getProp body f)]) = {}"
      using Cons.prems by auto
    have "filter (routeChanged body cur) (f # fs) = f # filter (routeChanged body cur) fs"
      using True by (simp add: routeChanged_def)
    then show ?thesis
      using True a Cons.IH [OF d] by simp
  qed
qed

lemma collectChanges_entries:
  "map iph_field (snd (collectChanges fs i body cur (pu, hs))) =
     map iph_field hs @ map fieldLabel (filter (routeChanged body cur) fs)"
proof (induction fs arbitrary: pu hs)
  case Nil
  show ?case by simp
next
  case (Cons f fs)
  show ?case
  proof (cases "truthy (getProp body f) \<and> getProp body f \<noteq> userField cur f")
    case False
    have "collectChanges (f # fs) i body cur (pu, hs) = collectChanges fs i body cur (pu, hs)"
      using False by auto
    moreover have "filter (routeChanged body cur) (f # fs) = filter (routeChanged body cur) fs"
      using False by (auto simp: routeChanged_def)
    ultimately show ?thesis
      using Cons.IH [of pu hs] by (simp only: )
  next
    case True
    have "filter (routeChanged body cur) (f # fs) = f # filter (routeChanged body cur) fs"
      using True by (simp add: routeChanged_def)
    then show ?thesis
      using True Cons.IH by simp
  qed
qed

lemma createProfileHistory_rejected:
  "createProfileHistory h st = (Inl e, st') \<Longrightarrow>
   profileHistory st' = profileHistory st \<and> (\<forall>s. iph_newValue h \<noteq> Str s)"
  by (auto simp: createProfileHistory_def stamp_def newDate_def Let_def
           split: jsval.splits option.splits prod.splits)

lemma createProfileHistory_null:
  "iph_newValue h = Null \<Longrightarrow> \<exists>e st'. createProfileHistory h st = (Inl e, st')"
  by (simp add: createProfileHistory_def)

lemma trackFields_rows:
  "\<exists>rows. profileHistory (snd (trackFields fs i updates cur st)) = profileHistory st @ rows \<and>
          map ph_field rows =
            filter (valueChanged updates cur)
              (takeWhile (\<lambda>f. \<not> rejectedChange updates cur f) fs) \<and>
          (fst (trackFields fs i updates cur st) = Inr ()) =
            list_all (\<lambda>f. \<not> rejectedChange updates cur f) fs"
proof (induction fs arbitrary: st)
  case Nil
  show ?case by simp
next
  case (Cons f fs)
  show ?case
  proof (cases "getProp updates f \<noteq> Undefined \<and> getProp updates f \<noteq> userField cur f")
    case False
    have "trackFields (f # fs) i updates cur st = trackFields fs i updates cur st"
      using False by auto
    moreover have nv: "\<not> valueChanged updates cur f"
      using False by (auto simp: valueChanged_def)
    moreover have "\<not> rejectedChange updates cur f"
      using nv by (simp add: rejectedChange_def)
    ultimately show ?thesis
      using Cons.IH [of st] by simp
  next
    case True
    have vc: "valueChanged updates cur f"
      using True by (simp add: valueChanged_def)
    let ?h = "\<lparr>iph_userId = i, iph_field = f, iph_previousValue = userField cur f,
               iph_newValue = getProp updates f, iph_updatedAt = Some (fst (newDate st))\<rparr>"
    obtain r st2 where c: "createProfileHistory ?h (snd (newDate st)) = (r, st2)"
      by (cases "createProfileHistory ?h (snd (newDate st))")
    show ?thesis
    proof (cases r)
      case (Inl e)
      have stop: "trackFields (f # fs) i updates cur st = (Inl e, st2)"
        using True c Inl by simp
      have rej: "profileHistory st2 = profileHistory st" "\<forall>s. getProp updates f \<noteq> Str s"
        using createProfileHistory_rejected [of ?h "snd (newDate st)" e st2] c Inl
        by (simp_all add: newDate_def)
      have "getProp updates f = Null"
        using rej(2) True by (cases "getProp updates f") auto
      then have "rejectedChange updates cur f"
        using vc by (simp add: rejectedChange_def)
      then show ?thesis
        using stop rej(1) by simp
    next
      case (Inr row)
      have step: "trackFields (f # fs) i updates cur st = trackFields fs i updates cur st2"
        using True c Inr by simp
      have r1: "profileHistory st2 = profileHistory st @ [row]" "ph_field row = f"
        using createProfileHistory_row [of ?h "snd (newDate st)" row st2] c Inr
        by (simp_all add: newDate_def)
      have "getProp updates f \<noteq> Null"
        using createProfileHistory_null [of ?h "snd (newDate st)"] c Inr by auto
      then have acc: "\<not> rejectedChange updates cur f"
        by (simp add: rejectedChange_def)
      obtain rows where r2:
          "profileHistory (snd (trackFields fs i updates cur st2)) = profileHistory st2 @ rows"
          "map ph_field rows =
             filter (valueChanged updates cur)
               (takeWhile (\<lambda>f. \<not> rejectedChange updates cur f) fs)"
          "(fst (trackFields fs i updates cur st2) = Inr ()) =
             list_all (\<lambda>f. \<not> rejectedChange updates cur f) fs"
        using Cons.IH [of st2] by blast
      have "profileHistory (snd (trackFields (f # fs) i updates cur st)) =
              profileHistory st @ (row # rows)"
        using step r1 r2 by simp
      moreover have "map ph_field (row # rows) =
              filter (valueChanged updates cur)
                (takeWhile (\<lambda>f. \<not> rejectedChange updates cur f) (f # fs))"
        using vc acc r1 r2 by simp
      moreover have "(fst (trackFields (f # fs) i updates cur st) = Inr ()) =
              list_all (\<lambda>f. \<not> rejectedChange updates cur f) (f # fs)"
        using step acc r2 by simp
      ultimately show ?thesis by blast
    qed
  qed
qed

text \<open>
  Claim C8, as the two loops decide it. The handler takes a field of its list for changed
  exactly when the incoming value is truthy (a non-empty string) and differs from the
  stored value; these fields, in the order of the list, are the keys of \<^verbatim>\<open>profileUpdates\<close>
  and the labels of \<^verbatim>\<open>historyEntries\<close>. \<^verbatim>\<open>updateUser\<close> takes a tracked field for changed
  exactly when it is present in the update and differs from the stored value, \<open>null\<close>
  against the empty string and \<open>null\<close> against a value included, and writes a row for
  each such field in the order of the list. A change to \<open>null\<close> is the one it cannot
  record: the insert is rejected, the call throws there and the rows of the fields before
  it stay; the loop ends without throwing exactly when no tracked field is changed to
  \<open>null\<close>. In neither loop is a field that is absent from the payload recorded: it is no
  key of \<^verbatim>\<open>profileUpdates\<close> and no row is written for it.
\<close>

theorem change_detection_rules:
  "map fst (fst (collectChanges updatableFields userId body cur ([], []))) =
     filter (routeChanged body cur) updatableFields \<and>
   map iph_field (snd (collectChanges updatableFields userId body cur ([], []))) =
     map fieldLabel (filter (routeChanged body cur) updatableFields) \<and>
   map ph_field (newProfileRows st (snd (trackFields fieldsToTrack userId updates cur st))) =
     filter (valueChanged updates cur)
       (takeWhile (\<lambda>f. \<not> rejectedChange updates cur f) fieldsToTrack) \<and>
   (fst (trackFields fieldsToTrack userId updates cur st) = Inr ()) =
     list_all (\<lambda>f. \<not> rejectedChange updates cur f) fieldsToTrack \<and>
   (getProp body field = Undefined \<longrightarrow>
      field \<notin> set (map fst (fst (collectChanges updatableFields userId body cur ([], []))))) \<and>
   (getProp updates field = Undefined \<longrightarrow>
      field \<notin> set (map ph_field
                  (newProfileRows st (snd (trackFields fieldsToTrack userId updates cur st)))))"
proof -
  have keys: "map fst (fst (collectChanges updatableFields userId body cur ([], []))) =
          filter (routeChanged body cur) updatableFields"
    using collectChanges_keys [of updatableFields "[]" userId body cur "[]"]
    by (simp add: updatableFields_def)
  have labels: "map iph_field (snd (collectChanges updatableFields userId body cur ([], []))) =
          map fieldLabel (filter (routeChanged body cur) updatableFields)"
    using collectChanges_entries [of updatableFields userId body cur "[]" "[]"] by simp
  obtain rows where rows:
      "profileHistory (snd (trackFields fieldsToTrack userId updates cur st)) =
         profileHistory st @ rows"
      "map ph_field rows =
         filter (valueChanged updates cur)
           (takeWhile (\<lambda>f. \<not> rejectedChange updates cur f) fieldsToTrack)"
      "(fst (trackFields fieldsToTrack userId updates cur st) = Inr ()) =
         list_all (\<lambda>f. \<not> rejectedChange updates cur f) fieldsToTrack"
    using trackFields_rows [of fieldsToTrack userId updates cur st] by blast
  have new: "map ph_field
          (newProfileRows st (snd (trackFields fieldsToTrack userId updates cur st))) =
        filter (valueChanged updates cur)
          (takeWhile (\<lambda>f. \<not> rejectedChange updates cur f) fieldsToTrack)"
    using rows(1,2) by (simp add: newProfileRows_def)
  have absent1: "getProp body field = Undefined \<longrightarrow>
      field \<notin> set (map fst (fst (collectChanges updatableFields userId body cur ([], []))))"
    unfolding keys by (simp add: routeChanged_def)
  have absent2: "getProp updates field = Undefined \<longrightarrow>
      field \<notin> set (map ph_field
                  (newProfileRows st (snd (trackFields fieldsToTrack userId updates cur st))))"
    unfolding new by (simp add: valueChanged_def)
  show ?thesis
    by (intro conjI keys labels new rows(3) absent1 absent2)
qed

text \<open>On the demo user: a body with an empty role and a new location, and an update that
  also sets the project to \<open>null\<close>, where the loop writes the row of the role and throws.\<close>

theorem change_detection_rules_witness:
  "getProp [(''role'', Str []), (''location'', Str ''Berlin'')] ''clientName'' = Undefined \<and>
   map fst (fst (collectChanges updatableFields 1
      [(''role'', Str []), (''location'', Str ''Berlin'')] demoUser ([], []))) = [''location''] \<and>
   ''clientName'' \<notin> set (map fst (fst (collectChanges updatableFields 1
      [(''role'', Str []), (''location'', Str ''Berlin'')] demoUser ([], [])))) \<and>
   map ph_field (newProfileRows store0 (snd (trackFields fieldsToTrack 1
      [(''role'', Str []), (''projectName'', Null), (''location'', Str ''Berlin'')]
      demoUser store0))) = [''role''] \<and>
   fst (trackFields fieldsToTrack 1
      [(''role'', Str []), (''projectName'', Null), (''location'', Str ''Berlin'')]
      demoUser store0) \<noteq> Inr ()"
proof -
  let ?b = "[(''role'', Str []), (''location'', Str ''Berlin'')]"
  let ?u = "[(''role'', Str []), (''projectName'', Null), (''location'', Str ''Berlin'')]"
  have ab: "getProp ?b ''clientName'' = Undefined"
    by code_simp
  have f1: "filter (routeChanged ?b demoUser) updatableFields = [''location'']"
    by code_simp
  have f2: "filter (valueChanged ?u demoUser)
              (takeWhile (\<lambda>f. \<not> rejectedChange ?u demoUser f) fieldsToTrack) = [''role'']"
    by code_simp
  have f3: "\<not> list_all (\<lambda>f. \<not> rejectedChange ?u demoUser f) fieldsToTrack"
    by code_simp
  note t = change_detection_rules [of 1 ?b demoUser store0 ?u "''clientName''"]
  have a: "map fst (fst (collectChanges updatableFields 1 ?b demoUser ([], []))) = [''location'']"
    by (rule trans [OF t [THEN conjunct1] f1])
  have b: "map ph_field (newProfileRows store0
             (snd (trackFields fieldsToTrack 1 ?u demoUser store0))) = [''role'']"
    by (rule trans [OF t [THEN conjunct2, THEN conjunct2, THEN conjunct1] f2])
  have c: "''clientName'' \<notin> set (map fst (fst (collectChanges updatableFields 1
             ?b demoUser ([], []))))"
    by (rule t [THEN conjunct2, THEN conjunct2, THEN conjunct2, THEN conjunct2,
                THEN conjunct1, THEN mp, OF ab])
  have d: "fst (trackFields fieldsToTrack 1 ?u demoUser store0) \<noteq> Inr ()"
    using t [THEN conjunct2, THEN conjunct2, THEN conjunct2, THEN conjunct1] f3
    by blast
  show ?thesis
    by (intro conjI ab a c b d)
qed

text \<open>
  So in the handler the decision is not the inequality of the values alone: the stored
  role is \<open>null\<close>, the incoming role is the empty string, the two differ, and the handler
  records no change and writes nothing.
\<close>

theorem empty_string_is_not_a_change_for_the_route:
  "valueChanged [(''role'', Str [])] demoUser ''role'' \<and>
   \<not> routeChanged [(''role'', Str [])] demoUser ''role'' \<and>
   fst (collectChanges updatableFields 1 [(''role'', Str [])] demoUser ([], [])) = [] \<and>
   profileHistory (snd (putProfile 1 1 [(''role'', Str [])] store0)) = profileHistory store0"
  by code_simp

section \<open>The history listings are in descending order\<close>









section \<open>A profile update cannot touch id, email or password\<close>

lemma setUser_identity:
  assumes "getProp updates ''id'' = Undefined"
    and "getProp updates ''email'' = Undefined"
    and "getProp updates ''password'' = Undefined"
  shows "(u_id (setUser updates u), email (setUser updates u), password (setUser updates u)) =
         (u_id u, email u, password u)"
  using assms by (simp add: setUser_def setId_def setRequired_def)

lemma updateUsersSet_users:
  "users (snd (updateUsersSet i updates st)) = users st \<or>
   users (snd (updateUsersSet i updates st)) =
     map (\<lambda>u. if u_id u = i then setUser updates u else u) (users st)"
  by (simp add: updateUsersSet_def)

lemma updateUser_identity:
  assumes "getProp updates ''id'' = Undefined"
    and "getProp updates ''email'' = Undefined"
    and "getProp updates ''password'' = Undefined"
  shows "map (\<lambda>u. (u_id u, email u, password u)) (users (snd (updateUser i updates st))) =
         map (\<lambda>u. (u_id u, email u, password u)) (users st)"
proof (cases "getUser i st")
  case None
  then show ?thesis by (simp add: updateUser_def)
next
  case (Some cur)
  obtain r st1 where t: "trackFields fieldsToTrack i updates cur st = (r, st1)"
    by (cases "trackFields fieldsToTrack i updates cur st")
  have u1: "users st1 = users st"
    using trackFields_users [of fieldsToTrack i updates cur st] t by simp
  have same: "map (\<lambda>u. (u_id u, email u, password u))
            (map (\<lambda>u. if u_id u = i then setUser updates u else u) (users st1)) =
          map (\<lambda>u. (u_id u, email u, password u)) (users st1)"
    using setUser_identity [OF assms] by (induction "users st1") auto
  show ?thesis
  proof (cases r)
    case (Inl e)
    then show ?thesis using Some t u1 by (simp add: updateUser_def)
  next
    case (Inr x)
    have run: "snd (updateUser i updates st) = snd (updateUsersSet i updates st1)"
      using Some t Inr by (simp add: updateUser_def)
    show ?thesis
      using updateUsersSet_users [of i updates st1] same u1
      unfolding run by (elim disjE) (simp_all only: )
  qed
qed

text \<open>
  Claim C10. Whatever keys the body of a profile update carries, and whatever the answer
  is, every row of the users table has the id, the email and the password after the
  request that it had before: the handler copies only the six updatable fields into the
  update it passes on, so the update statement finds no \<^verbatim>\<open>id\<close>, \<^verbatim>\<open>email\<close> or \<^verbatim>\<open>password\<close>
  to set.
\<close>

theorem profile_update_keeps_identity:
  "map (\<lambda>u. (u_id u, email u, password u)) (users (snd (putProfile reqUser userId body st))) =
   map (\<lambda>u. (u_id u, email u, password u)) (users st)"
proof (cases "reqUser \<noteq> userId \<or> getUser userId st = None")
  case True
  then have "snd (putProfile reqUser userId body st) = st"
    by (auto simp: putProfile_def)
  then show ?thesis by simp
next
  case False
  then obtain cur where cur: "getUser userId st = Some cur" and own: "reqUser = userId"
    by auto
  obtain pu hs where c: "collectChanges updatableFields userId body cur ([], []) = (pu, hs)"
    by (cases "collectChanges updatableFields userId body cur ([], [])")
  have "getProp (fst (collectChanges updatableFields userId body cur ([], []))) ''id'' =
        getProp [] ''id''"
    by (rule collectChanges_other_key) (simp add: updatableFields_def)
  then have i: "getProp pu ''id'' = Undefined"
    by (simp add: c getProp_def)
  have "getProp (fst (collectChanges updatableFields userId body cur ([], []))) ''email'' =
        getProp [] ''email''"
    by (rule collectChanges_other_key) (simp add: updatableFields_def)
  then have e: "getProp pu ''email'' = Undefined"
    by (simp add: c getProp_def)
  have "getProp (fst (collectChanges updatableFields userId body cur ([], []))) ''password'' =
        getProp [] ''password''"
    by (rule collectChanges_other_key) (simp add: updatableFields_def)
  then have p: "getProp pu ''password'' = Undefined"
    by (simp add: c getProp_def)
  obtain r st1 where u: "updateUser userId pu st = (r, st1)"
    by (cases "updateUser userId pu st")
  have k1: "map (\<lambda>u. (u_id u, email u, password u)) (users st1) =
            map (\<lambda>u. (u_id u, email u, password u)) (users st)"
    using updateUser_identity [OF i e p, of userId st] by (simp only: u snd_conv)
  obtain r2 st2 where ce: "createEntries hs st1 = (r2, st2)"
    by (cases "createEntries hs st1")
  have k2: "users st2 = users st1"
    using createEntries_users [of hs st1] by (simp only: ce snd_conv)
  have "snd (putProfile reqUser userId body st) = st \<or>
        snd (putProfile reqUser userId body st) = st1 \<or>
        snd (putProfile reqUser userId body st) = st2"
    by (cases r; cases r2) (simp_all add: putProfile_def own cur c u ce)
  then show ?thesis
    using k1 k2 by (elim disjE) (simp_all only: )
qed

text \<open>A body that also carries \<^verbatim>\<open>email\<close>, \<^verbatim>\<open>password\<close> and \<^verbatim>\<open>id\<close>: the role changes, they
  do not.\<close>

theorem profile_update_keeps_identity_witness:
  "map (\<lambda>u. (u_id u, email u, password u))
     (users (snd (putProfile 1 1
        [(''role'', Str ''Engineer''), (''email'', Str ''evil@example.com''),
         (''password'', Str ''x''), (''id'', Str ''2'')] store0))) =
   [(1, ''demo@example.com'', ''hashed'')] \<and>
   map role (users (snd (putProfile 1 1
        [(''role'', Str ''Engineer''), (''email'', Str ''evil@example.com''),
         (''password'', Str ''x''), (''id'', Str ''2'')] store0))) = [Some ''Engineer'']"
proof (rule conjI)
  have u: "map (\<lambda>u. (u_id u, email u, password u)) (users store0) =
           [(1, ''demo@example.com'', ''hashed'')]"
    by (simp add: store0_def demoUser_def)
  show "map (\<lambda>u. (u_id u, email u, password u))
     (users (snd (putProfile 1 1
        [(''role'', Str ''Engineer''), (''email'', Str ''evil@example.com''),
         (''password'', Str ''x''), (''id'', Str ''2'')] store0))) =
   [(1, ''demo@example.com'', ''hashed'')]"
    by (rule trans [OF profile_update_keeps_identity u])
next
  show "map role (users (snd (putProfile 1 1
        [(''role'', Str ''Engineer''), (''email'', Str ''evil@example.com''),
         (''password'', Str ''x''), (''id'', Str ''2'')] store0))) = [Some ''Engineer'']"
    by code_simp
qed

text \<open>The whitelist is what protects them: handed the same keys directly, \<^verbatim>\<open>updateUser\<close>
  writes all three.\<close>

lemma updateUser_can_change_identity:
  "map (\<lambda>u. (u_id u, email u, password u))
     (users (snd (updateUser 1
        [(''role'', Str ''Engineer''), (''email'', Str ''evil@example.com''),
         (''password'', Str ''x''), (''id'', Str ''2'')] store0))) =
   [(2, ''evil@example.com'', ''x'')]"
  by code_simp

end
